theory Spec2Isabelle
  imports Complex_Main
begin

section \<open>The JavaScript \<open>Date\<close> operations the chart uses\<close>

text \<open>
  \<open>MacroChart.jsx\<close> builds its dates with \<open>new Date(year, 0, day)\<close>, which is local
  midnight, and changes them only with \<open>setDate\<close>, which keeps the time of day. A
  \<open>Date\<close> is therefore modelled by its local calendar day: the number of days since
  1970-01-01, negative before. The functions below are the day-level algorithms of the
  ECMAScript specification (section "Time Values and Time Range" and the abstract
  operation MakeDay), with their names.
\<close>

type_synonym Date = int

definition DaysInYear :: "int \<Rightarrow> int" where
  "DaysInYear y =
     (if y mod 4 \<noteq> 0 then 365
      else if y mod 100 \<noteq> 0 then 366
      else if y mod 400 \<noteq> 0 then 365
      else 366)"

definition DayFromYear :: "int \<Rightarrow> int" where
  "DayFromYear y =
     365 * (y - 1970) + (y - 1969) div 4 - (y - 1901) div 100 + (y - 1601) div 400"

text \<open>A year begins \<open>DaysInYear\<close> days after the year before it.\<close>

lemma div_succ:
  fixes a k :: int
  assumes k: "0 < k"
  shows "(a + 1) div k = a div k + (if (a + 1) mod k = 0 then 1 else 0)"
proof (cases "a mod k + 1 = k")
  case True
  have "a + 1 = k * (a div k) + (a mod k + 1)"
    by simp
  also have "\<dots> = k * (a div k + 1) + 0"
    using True by (simp add: algebra_simps)
  finally have e: "a + 1 = k * (a div k + 1) + 0" .
  have "(a + 1) div k = a div k + 1"
    by (rule int_div_pos_eq [OF e]) (use k in simp_all)
  moreover have "(a + 1) mod k = 0"
    by (rule int_mod_pos_eq [OF e]) (use k in simp_all)
  ultimately show ?thesis by simp
next
  case False
  have e: "a + 1 = k * (a div k) + (a mod k + 1)"
    by simp
  have lo: "0 \<le> a mod k + 1"
    using pos_mod_sign [OF k, of a] by linarith
  have hi: "a mod k + 1 < k"
    using pos_mod_bound [OF k, of a] False by linarith
  have "(a + 1) div k = a div k"
    using e lo hi by (rule int_div_pos_eq)
  moreover have "(a + 1) mod k = a mod k + 1"
    using e lo hi by (rule int_mod_pos_eq)
  moreover have "a mod k + 1 \<noteq> 0"
    using pos_mod_sign [OF k, of a] by linarith
  ultimately show ?thesis by simp
qed

lemma div_step4:
  "((y::int) - 1968) div 4 = (y - 1969) div 4 + (if y mod 4 = 0 then 1 else 0)"
  using div_succ [of 4 "y - 1969"] mod_mult_self2 [of y 4 "- 492"] by simp

lemma div_step100:
  "((y::int) - 1900) div 100 = (y - 1901) div 100 + (if y mod 100 = 0 then 1 else 0)"
  using div_succ [of 100 "y - 1901"] mod_mult_self2 [of y 100 "- 19"] by simp

lemma div_step400:
  "((y::int) - 1600) div 400 = (y - 1601) div 400 + (if y mod 400 = 0 then 1 else 0)"
  using div_succ [of 400 "y - 1601"] mod_mult_self2 [of y 400 "- 4"] by simp

lemma mod_100_4: "(y::int) mod 100 = 0 \<Longrightarrow> y mod 4 = 0"
proof -
  assume "y mod 100 = 0"
  then have "100 dvd y" by (simp add: mod_eq_0_iff_dvd)
  moreover have "(4::int) dvd 100" by simp
  ultimately have "4 dvd y" by (rule dvd_trans [rotated])
  then show ?thesis by (simp add: mod_eq_0_iff_dvd)
qed

lemma mod_400_100: "(y::int) mod 400 = 0 \<Longrightarrow> y mod 100 = 0"
proof -
  assume "y mod 400 = 0"
  then have "400 dvd y" by (simp add: mod_eq_0_iff_dvd)
  moreover have "(100::int) dvd 400" by simp
  ultimately have "100 dvd y" by (rule dvd_trans [rotated])
  then show ?thesis by (simp add: mod_eq_0_iff_dvd)
qed

lemma DayFromYear_Suc: "DayFromYear (y + 1) = DayFromYear y + DaysInYear y"
  using mod_100_4 [of y] mod_400_100 [of y]
  by (auto simp add: DayFromYear_def DaysInYear_def div_step4 div_step100 div_step400)

lemma DaysInYear_cases: "DaysInYear y = 365 \<or> DaysInYear y = 366"
  by (simp add: DaysInYear_def)

lemma DaysInYear_range: "365 \<le> DaysInYear y \<and> DaysInYear y \<le> 366"
  by (simp add: DaysInYear_def)

text \<open>
  \<open>YearFromTime\<close> is the largest year whose first day is not after the given day. It is
  computed by walking up from a year that is certainly not too late.
\<close>

function year_upto :: "int \<Rightarrow> int \<Rightarrow> int" where
  "year_upto y d = (if DayFromYear (y + 1) \<le> d then year_upto (y + 1) d else y)"
  by pat_completeness auto
termination
proof (relation "measure (\<lambda>(y, d). nat (d + 1 - DayFromYear (y + 1)))")
  show "wf (measure (\<lambda>(y, d). nat (d + 1 - DayFromYear (y + 1))))"
    by simp
next
  fix y d :: int
  assume "DayFromYear (y + 1) \<le> d"
  moreover have "DayFromYear (y + 1) < DayFromYear (y + 1 + 1)"
    using DayFromYear_Suc [of "y + 1"] DaysInYear_cases [of "y + 1"] by linarith
  ultimately show "((y + 1, d), (y, d)) \<in> measure (\<lambda>(y, d). nat (d + 1 - DayFromYear (y + 1)))"
    by simp
qed

declare year_upto.simps [simp del]

definition YearFromTime :: "Date \<Rightarrow> int" where
  "YearFromTime d =
     year_upto (1970 + (if 0 \<le> d then d div 366 else d div 365)) d"

definition InLeapYear :: "Date \<Rightarrow> int" where
  "InLeapYear d = (if DaysInYear (YearFromTime d) = 366 then 1 else 0)"

definition DayWithinYear :: "Date \<Rightarrow> int" where
  "DayWithinYear d = d - DayFromYear (YearFromTime d)"

definition MonthFromTime :: "Date \<Rightarrow> int" where
  "MonthFromTime d =
     (let n = DayWithinYear d; l = InLeapYear d in
      if n < 31 then 0
      else if n < 59 + l then 1
      else if n < 90 + l then 2
      else if n < 120 + l then 3
      else if n < 151 + l then 4
      else if n < 181 + l then 5
      else if n < 212 + l then 6
      else if n < 243 + l then 7
      else if n < 273 + l then 8
      else if n < 304 + l then 9
      else if n < 334 + l then 10
      else 11)"

text \<open>The number of days of a year that lie before its month \<open>m\<close> (0 is January).\<close>

definition DaysBeforeMonth :: "int \<Rightarrow> int \<Rightarrow> int" where
  "DaysBeforeMonth m l =
     (if m = 0 then 0
      else if m = 1 then 31
      else if m = 2 then 59 + l
      else if m = 3 then 90 + l
      else if m = 4 then 120 + l
      else if m = 5 then 151 + l
      else if m = 6 then 181 + l
      else if m = 7 then 212 + l
      else if m = 8 then 243 + l
      else if m = 9 then 273 + l
      else if m = 10 then 304 + l
      else 334 + l)"

definition DateFromTime :: "Date \<Rightarrow> int" where
  "DateFromTime d = DayWithinYear d - DaysBeforeMonth (MonthFromTime d) (InLeapYear d) + 1"

definition WeekDay :: "Date \<Rightarrow> int" where
  "WeekDay d = (d + 4) mod 7"

text \<open>
  \<open>MakeDay\<close> accepts any month and day of month: a month outside 0..11 moves the year, a
  day outside the month counts on from the first of the month.
\<close>

definition MakeDay :: "int \<Rightarrow> int \<Rightarrow> int \<Rightarrow> Date" where
  "MakeDay year month dt =
     (let ym = year + month div 12; mn = month mod 12 in
      DayFromYear ym + DaysBeforeMonth mn (if DaysInYear ym = 366 then 1 else 0) + dt - 1)"

text \<open>
  \<open>new Date(year, month, day)\<close>: the constructor reads a year from 0 to 99 as
  1900 + year.
\<close>

definition Date_new :: "int \<Rightarrow> int \<Rightarrow> int \<Rightarrow> Date" where
  "Date_new year month day =
     MakeDay (if 0 \<le> year \<and> year \<le> 99 then 1900 + year else year) month day"

definition getDay :: "Date \<Rightarrow> int" where
  "getDay d = WeekDay d"

definition getDate :: "Date \<Rightarrow> int" where
  "getDate d = DateFromTime d"

definition getMonth :: "Date \<Rightarrow> int" where
  "getMonth d = MonthFromTime d"

definition getFullYear :: "Date \<Rightarrow> int" where
  "getFullYear d = YearFromTime d"

definition setDate :: "Date \<Rightarrow> int \<Rightarrow> Date" where
  "setDate d n = MakeDay (YearFromTime d) (MonthFromTime d) n"

section \<open>MacroChart.jsx: \<open>getISOWeekDates\<close>\<close>

record week_dates =
  start :: Date
  end_date :: Date

definition getISOWeekDates :: "int \<Rightarrow> int \<Rightarrow> week_dates" where
  "getISOWeekDates year week =
     (let simple = Date_new year 0 (1 + (week - 1) * 7);
          dow = getDay simple;
          ISOweekStart =
            (if dow \<le> 4 then setDate simple (getDate simple - getDay simple + 1)
             else setDate simple (getDate simple + 8 - getDay simple));
          ISOweekEnd = setDate ISOweekStart (getDate ISOweekStart + 6)
      in \<lparr>start = ISOweekStart, end_date = ISOweekEnd\<rparr>)"

text \<open>
  The first of January of a year, as a day number: the day that \<open>MakeDay\<close> gives for
  month 0 and day 1.
\<close>

definition first_of_january :: "int \<Rightarrow> Date" where
  "first_of_january y = MakeDay y 0 1"

section \<open>JavaScript values\<close>

text \<open>
  A number is a double: a finite value, \<open>NaN\<close> or an infinity. A finite value is written
  as the rational it equals. Multiplication and addition round the exact result to the
  nearest double, a tie going to the even significand and a result beyond the largest
  double to an infinity, as IEEE 754 arithmetic does. The negative zero is not kept apart
  from zero: no operation that this program applies tells the two apart.
\<close>

datatype jsnum = Fin rat | NaN | PosInf | NegInf

text \<open>\<open>ipow b n\<close> is \<open>b\<close> to the power \<open>n\<close>, by repeated squaring.\<close>

function ipow :: "rat \<Rightarrow> int \<Rightarrow> rat" where
  "ipow b n =
     (if n \<le> 0 then 1
      else if n mod 2 = 0 then ipow (b * b) (n div 2)
      else b * ipow (b * b) (n div 2))"
  by pat_completeness auto
termination
  by (relation "measure (\<lambda>(b, n). nat n)") auto

declare ipow.simps [simp del]

definition pow2 :: "int \<Rightarrow> rat" where
  "pow2 e = (if 0 \<le> e then ipow 2 e else 1 / ipow 2 (- e))"

definition pow10 :: "int \<Rightarrow> rat" where
  "pow10 e = (if 0 \<le> e then ipow 10 e else 1 / ipow 10 (- e))"

text \<open>The number of digits of a positive integer in base \<open>b\<close>.\<close>

function count_digits :: "int \<Rightarrow> int \<Rightarrow> int" where
  "count_digits b n = (if n \<le> 0 \<or> b \<le> 1 then 0 else 1 + count_digits b (n div b))"
  by pat_completeness auto
termination
proof (relation "measure (\<lambda>(b, n). nat n)")
  show "wf (measure (\<lambda>(b, n). nat n))"
    by simp
next
  fix b n :: int
  assume "\<not> (n \<le> 0 \<or> b \<le> 1)"
  then have "0 < n" and "1 < b"
    by simp_all
  then have "n div b < n"
    by (rule int_div_less_self)
  then show "((b, n div b), (b, n)) \<in> measure (\<lambda>(b, n). nat n)"
    using \<open>0 < n\<close> by simp
qed

declare count_digits.simps [simp del]

text \<open>
  For \<open>x > 0\<close>, the exponent \<open>e\<close> with \<open>b ^ e \<le> x < b ^ (e + 1)\<close>: the digit counts of the
  numerator and the denominator give it up to one, and a comparison decides.
\<close>

definition floor_log :: "int \<Rightarrow> rat \<Rightarrow> int" where
  "floor_log b x =
     (let g = count_digits b (fst (quotient_of x)) - count_digits b (snd (quotient_of x));
          p = (if 0 \<le> g then ipow (of_int b) g else 1 / ipow (of_int b) (- g))
      in if p \<le> x then g else g - 1)"

definition round_half_even :: "rat \<Rightarrow> int" where
  "round_half_even q =
     (let f = \<lfloor>q\<rfloor>; r = q - of_int f in
      if r < 1 / 2 then f else if 1 / 2 < r then f + 1 else if even f then f else f + 1)"

text \<open>
  The double nearest to a rational. A double has a significand of 53 bits; the unit in
  its last place is \<open>2 ^ (e - 52)\<close> where \<open>2 ^ e\<close> is the largest power of two not above
  its magnitude, and \<open>e\<close> is not below -1022 (below that the doubles are subnormal).
\<close>

definition to_double :: "rat \<Rightarrow> jsnum" where
  "to_double x =
     (if x = 0 then Fin 0
      else let a = \<bar>x\<bar>;
               e = max (floor_log 2 a) (- 1022);
               u = pow2 (e - 52);
               r = of_int (round_half_even (a / u)) * u
           in if pow2 1024 \<le> r then (if x < 0 then NegInf else PosInf)
              else Fin (if x < 0 then - r else r))"

fun num_sgn :: "jsnum \<Rightarrow> int" where
  "num_sgn (Fin a) = (if a < 0 then - 1 else if a = 0 then 0 else 1)"
| "num_sgn NaN = 0"
| "num_sgn PosInf = 1"
| "num_sgn NegInf = - 1"

fun num_mul :: "jsnum \<Rightarrow> jsnum \<Rightarrow> jsnum" where
  "num_mul (Fin a) (Fin b) = to_double (a * b)"
| "num_mul NaN y = NaN"
| "num_mul x NaN = NaN"
| "num_mul x y =
     (if num_sgn x * num_sgn y = 0 then NaN
      else if 0 < num_sgn x * num_sgn y then PosInf else NegInf)"

fun num_add :: "jsnum \<Rightarrow> jsnum \<Rightarrow> jsnum" where
  "num_add (Fin a) (Fin b) = to_double (a + b)"
| "num_add NaN y = NaN"
| "num_add x NaN = NaN"
| "num_add PosInf NegInf = NaN"
| "num_add NegInf PosInf = NaN"
| "num_add PosInf y = PosInf"
| "num_add x PosInf = PosInf"
| "num_add NegInf y = NegInf"
| "num_add x NegInf = NegInf"

text \<open>\<open>a < b\<close> on numbers: false when either side is \<open>NaN\<close>.\<close>

fun num_lt :: "jsnum \<Rightarrow> jsnum \<Rightarrow> bool" where
  "num_lt (Fin a) (Fin b) = (a < b)"
| "num_lt NaN y = False"
| "num_lt x NaN = False"
| "num_lt PosInf y = False"
| "num_lt x NegInf = False"
| "num_lt x PosInf = True"
| "num_lt NegInf y = True"

text \<open>
  \<open>Math.round\<close>: the nearest integer, a half rounding up. It is exact: the result is a
  double whenever the argument is.
\<close>

fun Math_round :: "jsnum \<Rightarrow> jsnum" where
  "Math_round (Fin a) = Fin (of_int \<lfloor>a + 1 / 2\<rfloor>)"
| "Math_round x = x"

text \<open>
  The values that occur in the chart's buckets and in the tracked items are primitive:
  \<open>undefined\<close> (also what reading an absent property gives), \<open>null\<close>, booleans,
  numbers and strings.
\<close>

datatype jsval = JUndefined | JNull | JBool bool | JNum jsnum | JStr string

fun typeof :: "jsval \<Rightarrow> string" where
  "typeof JUndefined = ''undefined''"
| "typeof JNull = ''object''"
| "typeof (JBool b) = ''boolean''"
| "typeof (JNum n) = ''number''"
| "typeof (JStr s) = ''string''"

fun truthy :: "jsval \<Rightarrow> bool" where
  "truthy JUndefined = False"
| "truthy JNull = False"
| "truthy (JBool b) = b"
| "truthy (JNum (Fin a)) = (a \<noteq> 0)"
| "truthy (JNum NaN) = False"
| "truthy (JNum PosInf) = True"
| "truthy (JNum NegInf) = True"
| "truthy (JStr s) = (s \<noteq> [])"

text \<open>\<open>a || b\<close>\<close>

definition js_or :: "jsval \<Rightarrow> jsval \<Rightarrow> jsval" where
  "js_or a b = (if truthy a then a else b)"

subsection \<open>Conversion to strings\<close>

definition digit_char :: "nat \<Rightarrow> char" where
  "digit_char n = char_of (48 + n)"

function dec_digits :: "int \<Rightarrow> string" where
  "dec_digits n =
     (if n < 10 then [digit_char (nat n)]
      else dec_digits (n div 10) @ [digit_char (nat (n mod 10))])"
  by pat_completeness auto
termination
  by (relation "measure nat") auto

declare dec_digits.simps [simp del]

text \<open>
  \<open>Number::toString\<close> writes the shortest decimal digits \<open>s\<close>, with an exponent \<open>e\<close>, for
  which \<open>s * 10 ^ e\<close> rounds to the number, and of those the nearest to it. With \<open>k\<close>
  digits the candidates are the two integers around the number scaled by \<open>10 ^ e\<close>; the
  search takes one digit more in each step.
\<close>

definition digits_ok :: "rat \<Rightarrow> int \<Rightarrow> int \<Rightarrow> bool" where
  "digits_ok x s e = (to_double (of_int s * pow10 e) = Fin x)"

definition try_digits :: "rat \<Rightarrow> int \<Rightarrow> (int \<times> int) option" where
  "try_digits x e =
     (let q = x / pow10 e; lo = \<lfloor>q\<rfloor>; hi = lo + 1 in
      if digits_ok x lo e \<and> digits_ok x hi e then
        (if q - of_int lo < of_int hi - q then Some (lo, e)
         else if of_int hi - q < q - of_int lo then Some (hi, e)
         else if even lo then Some (lo, e) else Some (hi, e))
      else if digits_ok x lo e then Some (lo, e)
      else if digits_ok x hi e then Some (hi, e)
      else None)"

fun shortest_digits :: "nat \<Rightarrow> rat \<Rightarrow> int \<Rightarrow> int \<times> int" where
  "shortest_digits 0 x e = (\<lfloor>x / pow10 e\<rfloor>, e)"
| "shortest_digits (Suc fuel) x e =
     (case try_digits x e of Some r \<Rightarrow> r | None \<Rightarrow> shortest_digits fuel x (e - 1))"

text \<open>
  The digits are then laid out with \<open>n\<close>, the position of the decimal point: plainly when
  \<open>n\<close> is from -5 to 21, with an exponent otherwise. An integer below \<open>2 ^ 53\<close> is written
  with all its digits: every other decimal that is not longer is at least 1 away from it,
  and so does not round to it.
\<close>

definition positive_toString :: "rat \<Rightarrow> string" where
  "positive_toString x =
     (if of_int \<lfloor>x\<rfloor> = x \<and> x < 9007199254740992 then dec_digits \<lfloor>x\<rfloor>
      else
        let (s0, e0) = shortest_digits 20 x (floor_log 10 x);
            (s, e) = (if s0 mod 10 = 0 then (s0 div 10, e0 + 1) else (s0, e0));
            ds = dec_digits s;
            k = int (length ds);
            n = e + k
        in if - 5 \<le> n \<and> n \<le> 21 then
             (if k \<le> n then ds @ replicate (nat (n - k)) (CHR ''0'')
              else if 0 < n then take (nat n) ds @ ''.'' @ drop (nat n) ds
              else ''0.'' @ replicate (nat (- n)) (CHR ''0'') @ ds)
           else
             (if k = 1 then ds else take 1 ds @ ''.'' @ drop 1 ds)
             @ ''e'' @ (if 0 \<le> n - 1 then ''+'' else ''-'') @ dec_digits \<bar>n - 1\<bar>)"

fun Number_toString :: "jsnum \<Rightarrow> string" where
  "Number_toString NaN = ''NaN''"
| "Number_toString PosInf = ''Infinity''"
| "Number_toString NegInf = ''-Infinity''"
| "Number_toString (Fin a) =
     (if a = 0 then ''0''
      else if a < 0 then ''-'' @ positive_toString (- a)
      else positive_toString a)"

fun ToString :: "jsval \<Rightarrow> string" where
  "ToString JUndefined = ''undefined''"
| "ToString JNull = ''null''"
| "ToString (JBool b) = (if b then ''true'' else ''false'')"
| "ToString (JNum n) = Number_toString n"
| "ToString (JStr s) = s"

text \<open>
  \<open>ToNumber\<close> for the values that are not strings; the operations below convert a string
  to a number nowhere.
\<close>

fun ToNumber :: "jsval \<Rightarrow> jsnum" where
  "ToNumber JUndefined = NaN"
| "ToNumber JNull = Fin 0"
| "ToNumber (JBool b) = Fin (if b then 1 else 0)"
| "ToNumber (JNum n) = n"
| "ToNumber (JStr s) = NaN"

text \<open>\<open>a + b\<close>: concatenation when either side is a string, numeric addition otherwise.\<close>

fun js_add :: "jsval \<Rightarrow> jsval \<Rightarrow> jsval" where
  "js_add (JStr s) b = JStr (s @ ToString b)"
| "js_add a (JStr t) = JStr (ToString a @ t)"
| "js_add a b = JNum (num_add (ToNumber a) (ToNumber b))"

definition startsWith :: "string \<Rightarrow> string \<Rightarrow> bool" where
  "startsWith s p = (take (length p) s = p)"

definition padStart :: "string \<Rightarrow> nat \<Rightarrow> char \<Rightarrow> string" where
  "padStart s n c = replicate (n - length s) c @ s"

text \<open>
  An object is a map from property names to values; reading a property that is absent
  gives \<open>undefined\<close>.
\<close>

type_synonym jsobj = "string \<rightharpoonup> jsval"

definition js_get :: "jsobj \<Rightarrow> string \<Rightarrow> jsval" where
  "js_get obj k = (case obj k of None \<Rightarrow> JUndefined | Some v \<Rightarrow> v)"

section \<open>MacroChart.jsx: the chart\<close>

text \<open>
  One element of \<open>convertedData\<close>. A macro field that is not of type number counts as 0;
  the object spread keeps every other property of the bucket.
\<close>

definition macro_field :: "jsobj \<Rightarrow> string \<Rightarrow> jsnum" where
  "macro_field day k =
     (if typeof (js_get day k) = ''number'' then ToNumber (js_get day k) else Fin 0)"

definition floor_kcal :: "jsnum \<Rightarrow> jsnum" where
  "floor_kcal x = (if num_lt (Math_round x) (Fin 1) then Fin 0 else Math_round x)"

definition calories :: "jsnum \<Rightarrow> jsnum \<Rightarrow> jsnum \<Rightarrow> jsnum" where
  "calories protein carbs fat =
     num_add (num_add (num_mul protein (Fin 4)) (num_mul carbs (Fin 4))) (num_mul fat (Fin 9))"

definition convert_day :: "jsobj \<Rightarrow> jsobj" where
  "convert_day day =
     (let protein = macro_field day ''protein'';
          carbs = macro_field day ''carbs'';
          fat = macro_field day ''fat''
      in day(''protein'' \<mapsto> JNum (floor_kcal (num_mul protein (Fin 4))),
             ''carbs'' \<mapsto> JNum (floor_kcal (num_mul carbs (Fin 4))),
             ''fat'' \<mapsto> JNum (floor_kcal (num_mul fat (Fin 9))),
             ''total'' \<mapsto> JNum (Math_round (calories protein carbs fat))))"

definition convertedData :: "jsobj list \<Rightarrow> jsobj list" where
  "convertedData chartData = map convert_day chartData"

definition xAxisInterval :: "string \<Rightarrow> nat \<Rightarrow> nat" where
  "xAxisInterval viewMode n =
     (if viewMode = ''monthly'' then 0
      else if n > 90 then 29
      else if n > 30 then 6
      else if n > 14 then 2
      else if n > 7 then 1
      else 0)"

text \<open>
  What \<open>MacroChart\<close> renders: one of the two placeholders with its message, or the bar
  chart with the data, the tick interval and the bar size it is given. The \<open>data\<close> js_get
  is an array, or absent (\<open>None\<close>).
\<close>

record bar_chart =
  chart_data :: "jsobj list"
  interval :: nat
  barSize :: nat

datatype rendered = Placeholder string | BarChart bar_chart

definition MacroChart :: "string \<Rightarrow> string \<Rightarrow> jsobj list option \<Rightarrow> bool \<Rightarrow> rendered" where
  "MacroChart unit viewMode data loading =
     (let chartData = (case data of None \<Rightarrow> [] | Some d \<Rightarrow> if length d > 0 then d else []) in
      if loading then Placeholder ''Loading chart data...''
      else if length chartData = 0 then Placeholder ''No data available for this period.''
      else BarChart \<lparr>chart_data = convertedData chartData,
                      interval = xAxisInterval viewMode (length (convertedData chartData)),
                      barSize = (if viewMode = ''daily'' then 30 else 50)\<rparr>)"

subsection \<open>The tooltip\<close>

text \<open>
  The chart declares three stacked bars, each with the property it reads from a bucket and
  the name it shows. On hover, the charting library hands the tooltip one payload entry
  for each bar, holding the bar's name and the value of the bar's property in the
  hovered element of the data the chart was given, which is \<open>convertedData\<close>.
\<close>

record tooltip_entry =
  entry_name :: string
  entry_value :: jsval

definition bars :: "(string \<times> string) list" where
  "bars = [(''protein'', ''Protein''), (''carbs'', ''Carbs''), (''fat'', ''Fat'')]"

definition hover_payload :: "jsobj \<Rightarrow> tooltip_entry list" where
  "hover_payload datum =
     map (\<lambda>(dataKey, name). \<lparr>entry_name = name, entry_value = js_get datum dataKey\<rparr>) bars"

text \<open>\<open>x || 0\<close> for a number \<open>x\<close>: of the numbers, \<open>NaN\<close> and 0 are falsy.\<close>

definition or_zero :: "jsnum \<Rightarrow> jsnum" where
  "or_zero x = (if x = NaN then Fin 0 else x)"

definition totalKcal :: "tooltip_entry list \<Rightarrow> jsval" where
  "totalKcal payload =
     foldl (\<lambda>sum entry. js_add sum (js_or (entry_value entry) (JNum (Fin 0))))
       (JNum (Fin 0)) payload"

text \<open>
  The children of a rendered element are pieces of text and values of expressions. Of
  a value, React writes a number or a string as text and writes nothing for
  \<open>undefined\<close>, \<open>null\<close> and the booleans.
\<close>

datatype jsx_child = Text string | Expr jsval

fun child_text :: "jsx_child \<Rightarrow> string" where
  "child_text (Text s) = s"
| "child_text (Expr (JNum n)) = Number_toString n"
| "child_text (Expr (JStr s)) = s"
| "child_text (Expr v) = []"

definition line_text :: "jsx_child list \<Rightarrow> string" where
  "line_text children = concat (map child_text children)"

text \<open>
  The tooltip renders nothing when it is inactive or its payload is absent or empty.
  Otherwise it renders a date line (not modelled), one line for each payload entry and
  the total line.
\<close>

record tooltip_view =
  series_lines :: "jsx_child list list"
  total_line :: "jsx_child list"

definition CustomTooltip ::
  "bool \<Rightarrow> tooltip_entry list option \<Rightarrow> string \<Rightarrow> tooltip_view option" where
  "CustomTooltip active payload unit =
     (if \<not> active then None
      else case payload of
        None \<Rightarrow> None
      | Some entries \<Rightarrow>
          if length entries = 0 then None
          else Some \<lparr>series_lines =
                        map (\<lambda>entry. [Expr (JStr (entry_name entry)), Text '':'', Text '' '',
                                        Expr (entry_value entry), Text '' '', Expr (JStr unit)])
                          entries,
                      total_line =
                        [Text ''Total: '', Expr (totalKcal entries), Text '' kcal'']\<rparr>)"

section \<open>App.jsx: saving the plate\<close>

definition getLocalDateString :: "Date \<Rightarrow> string" where
  "getLocalDateString date =
     ToString (JNum (Fin (of_int (getFullYear date)))) @ ''-''
     @ padStart (ToString (JNum (Fin (of_int (getMonth date + 1))))) 2 (CHR ''0'') @ ''-''
     @ padStart (ToString (JNum (Fin (of_int (getDate date))))) 2 (CHR ''0'')"

text \<open>
  The request body is modelled as the object handed to \<open>JSON.stringify\<close>. An item of the
  plate holds \<open>food_id\<close> and \<open>quantity\<close>, and \<open>custom_macros\<close> only when it was added.
\<close>

record plate_item =
  food_id :: jsval
  quantity :: jsval
  custom_macros :: "jsobj option"

record plate_body =
  body_date :: string
  body_items :: "plate_item list"

record request =
  url :: string
  http_method :: string
  body :: plate_body

definition plate_item_of :: "jsobj \<Rightarrow> plate_item" where
  "plate_item_of item =
     (let foodId = js_or (js_get item ''id'') (js_get item ''_id'');
          isCustom = startsWith (ToString foodId) ''custom-'';
          base = \<lparr>food_id = foodId,
                  quantity = js_or (js_get item ''quantity'') (JNum (Fin 1)),
                  custom_macros = None\<rparr>
      in if isCustom
         then base\<lparr>custom_macros :=
                Some [''calories'' \<mapsto> js_get item ''calories'',
                      ''protein'' \<mapsto> js_get item ''protein'',
                      ''carbs'' \<mapsto> js_get item ''carbs'',
                      ''totalFat'' \<mapsto> js_get item ''totalFat'',
                      ''name'' \<mapsto> js_get item ''name'']\<rparr>
         else base)"

text \<open>
  The part of the state of \<open>App\<close> that the save reads or writes, and the lines written
  with \<open>console.error\<close>.
\<close>

record app_state =
  trackedItems :: "jsobj list"
  date :: Date
  nutritionHistoryVersion :: int
  console_error :: "string list"

definition plate_request :: "app_state \<Rightarrow> request" where
  "plate_request st =
     \<lparr>url = ''/api/plate'', http_method = ''POST'',
      body = \<lparr>body_date = getLocalDateString (date st),
               body_items = map plate_item_of (trackedItems st)\<rparr>\<rparr>"

text \<open>
  \<open>fetch\<close> either resolves with a response, of which the save reads only \<open>ok\<close>, or
  rejects (the request itself failed). \<open>handleSavePlate\<close> has no handler for a rejection:
  the \<open>await\<close> raises it and the function ends there, its promise rejected.
\<close>

datatype fetch_result = Resolves bool | Rejects

datatype completion = Returns | Throws

definition handleSavePlate ::
  "(request \<Rightarrow> fetch_result) \<Rightarrow> app_state \<Rightarrow> app_state \<times> completion" where
  "handleSavePlate fetch st =
     (case fetch (plate_request st) of
        Rejects \<Rightarrow> (st, Throws)
      | Resolves ok \<Rightarrow>
          if ok then (st\<lparr>nutritionHistoryVersion := nutritionHistoryVersion st + 1\<rparr>, Returns)
          else (st\<lparr>console_error := console_error st @ [''Failed to save plate'']\<rparr>, Returns))"

section \<open>Facts about the calendar\<close>

lemma DayFromYear_less: "y < z \<Longrightarrow> DayFromYear y < DayFromYear z"
proof (induction z rule: int_gr_induct)
  case base
  show ?case
    using DayFromYear_Suc [of y] DaysInYear_cases [of y] by linarith
next
  case (step i)
  then show ?case
    using DayFromYear_Suc [of i] DaysInYear_cases [of i] by linarith
qed

lemma DayFromYear_le: "y \<le> z \<Longrightarrow> DayFromYear y \<le> DayFromYear z"
  using DayFromYear_less [of y z] by (cases "y = z") simp_all

lemma DayFromYear_1970: "DayFromYear 1970 = 0"
  by (simp add: DayFromYear_def)

lemma DayFromYear_upper: "1970 \<le> y \<Longrightarrow> DayFromYear y \<le> 366 * (y - 1970)"
proof (induction y rule: int_ge_induct)
  case base
  show ?case by (simp add: DayFromYear_1970)
next
  case (step i)
  then show ?case
    using DayFromYear_Suc [of i] DaysInYear_range [of i] by simp
qed

lemma DayFromYear_upper_before: "y \<le> 1970 \<Longrightarrow> DayFromYear y \<le> 365 * (y - 1970)"
proof (induction y rule: int_le_induct)
  case base
  show ?case by (simp add: DayFromYear_1970)
next
  case (step i)
  then show ?case
    using DayFromYear_Suc [of "i - 1"] DaysInYear_range [of "i - 1"] by simp
qed

lemma year_estimate:
  "DayFromYear (1970 + (if 0 \<le> d then d div 366 else d div 365)) \<le> d"
proof (cases "0 \<le> d")
  case True
  then have "0 \<le> d div 366"
    by simp
  then have "DayFromYear (1970 + d div 366) \<le> 366 * (d div 366)"
    using DayFromYear_upper [of "1970 + d div 366"] by simp
  also have "\<dots> \<le> d"
    by linarith
  finally show ?thesis
    using True by simp
next
  case False
  then have "d div 365 \<le> 0"
    by linarith
  then have "DayFromYear (1970 + d div 365) \<le> 365 * (d div 365)"
    using DayFromYear_upper_before [of "1970 + d div 365"] by simp
  also have "\<dots> \<le> d"
    by linarith
  finally show ?thesis
    using False by simp
qed

lemma year_upto_bounds:
  "DayFromYear y \<le> d \<Longrightarrow>
     DayFromYear (year_upto y d) \<le> d \<and> d < DayFromYear (year_upto y d + 1)"
proof (induction y d rule: year_upto.induct)
  case (1 y d)
  show ?case
  proof (cases "DayFromYear (y + 1) \<le> d")
    case True
    with "1.IH" show ?thesis
      by (simp add: year_upto.simps [of y d])
  next
    case False
    with "1.prems" show ?thesis
      by (simp add: year_upto.simps [of y d])
  qed
qed

text \<open>\<open>YearFromTime\<close> meets its specification, which determines it.\<close>

lemma YearFromTime_bounds:
  "DayFromYear (YearFromTime d) \<le> d \<and> d < DayFromYear (YearFromTime d + 1)"
  unfolding YearFromTime_def by (rule year_upto_bounds [OF year_estimate])

lemma YearFromTime_unique:
  assumes "DayFromYear y \<le> d" and "d < DayFromYear (y + 1)"
  shows "YearFromTime d = y"
proof (rule ccontr)
  assume ne: "YearFromTime d \<noteq> y"
  show False
  proof (cases "YearFromTime d < y")
    case True
    then have "DayFromYear (YearFromTime d + 1) \<le> DayFromYear y"
      by (intro DayFromYear_le) simp
    with assms YearFromTime_bounds [of d] show False
      by linarith
  next
    case False
    with ne have "DayFromYear (y + 1) \<le> DayFromYear (YearFromTime d)"
      by (intro DayFromYear_le) simp
    with assms YearFromTime_bounds [of d] show False
      by linarith
  qed
qed

lemma DayWithinYear_range:
  "0 \<le> DayWithinYear d \<and> DayWithinYear d < DaysInYear (YearFromTime d)"
  using YearFromTime_bounds [of d] DayFromYear_Suc [of "YearFromTime d"]
  by (simp add: DayWithinYear_def)

lemma first_of_january_eq: "first_of_january y = DayFromYear y"
  by (simp add: first_of_january_def MakeDay_def DaysBeforeMonth_def)

lemma YearFromTime_DayFromYear: "YearFromTime (DayFromYear y) = y"
  using DayFromYear_Suc [of y] DaysInYear_range [of y]
  by (intro YearFromTime_unique) simp_all

lemma first_of_january_fields:
  "getFullYear (first_of_january y) = y
   \<and> getMonth (first_of_january y) = 0
   \<and> getDate (first_of_january y) = 1"
proof -
  have "DayWithinYear (DayFromYear y) = 0"
    by (simp add: DayWithinYear_def YearFromTime_DayFromYear)
  then show ?thesis
    by (simp add: first_of_january_eq getFullYear_def getMonth_def getDate_def
        YearFromTime_DayFromYear MonthFromTime_def DateFromTime_def DaysBeforeMonth_def
        Let_def InLeapYear_def)
qed

lemma MonthFromTime_range: "0 \<le> MonthFromTime d \<and> MonthFromTime d \<le> 11"
  by (simp add: MonthFromTime_def Let_def)

lemma InLeapYear_eq: "InLeapYear d = (if DaysInYear (YearFromTime d) = 366 then 1 else 0)"
  by (simp add: InLeapYear_def)

lemma MakeDay_same_month:
  "MakeDay (YearFromTime d) (MonthFromTime d) n = d - DateFromTime d + n"
proof -
  have m: "MonthFromTime d div 12 = 0" "MonthFromTime d mod 12 = MonthFromTime d"
    using MonthFromTime_range [of d] by simp_all
  show ?thesis
    by (simp add: MakeDay_def Let_def m DateFromTime_def DayWithinYear_def InLeapYear_eq)
qed

lemma setDate_getDate: "setDate d (getDate d + k) = d + k"
  by (simp add: setDate_def getDate_def MakeDay_same_month)

lemma getISOWeekDates_start:
  "start (getISOWeekDates year week) =
     (let simple = Date_new year 0 (1 + (week - 1) * 7) in
      if WeekDay simple \<le> 4 then simple - WeekDay simple + 1 else simple + 8 - WeekDay simple)"
proof -
  have a: "setDate d (getDate d - WeekDay d + 1) = d - WeekDay d + 1" for d
    using setDate_getDate [of d "1 - WeekDay d"] by (simp add: algebra_simps)
  have b: "setDate d (getDate d + 8 - WeekDay d) = d + 8 - WeekDay d" for d
    using setDate_getDate [of d "8 - WeekDay d"] by (simp add: algebra_simps)
  show ?thesis
    by (simp add: getISOWeekDates_def Let_def a b getDay_def)
qed

lemma getISOWeekDates_end:
  "end_date (getISOWeekDates year week) = start (getISOWeekDates year week) + 6"
  by (simp add: getISOWeekDates_def Let_def setDate_getDate)

lemma anchor_eq:
  "Date_new year 0 (1 + (week - 1) * 7) =
     first_of_january (if 0 \<le> year \<and> year \<le> 99 then 1900 + year else year) + (week - 1) * 7"
  by (simp add: Date_new_def first_of_january_def MakeDay_def Let_def)

lemma WeekDay_range: "0 \<le> WeekDay d \<and> WeekDay d \<le> 6"
  by (simp add: WeekDay_def)

lemma WeekDay_monday_before: "WeekDay (d - WeekDay d + 1) = 1"
  unfolding WeekDay_def by presburger

lemma WeekDay_monday_after: "WeekDay (d + 8 - WeekDay d) = 1"
  unfolding WeekDay_def by presburger

text \<open>
  C1 (as amended). The anchor that \<open>getISOWeekDates\<close> builds is the first of January
  plus \<open>(week - 1) * 7\<close> days, of the given year, or of 1900 + year when the year is
  from 0 to 99, as the \<open>Date\<close> constructor reads it. When the anchor's weekday is 1 to 4
  (Monday to Thursday) the returned start is the most recent Monday on or before the
  anchor; when it is 0, 5 or 6 (Sunday, Friday, Saturday) the start is the next Monday
  after the anchor. The returned end is the start plus 6 days.
\<close>

theorem C1_week_start_by_anchor_weekday:
  "(let anchor = Date_new year 0 (1 + (week - 1) * 7);
        s = start (getISOWeekDates year week);
        e = end_date (getISOWeekDates year week)
    in anchor = first_of_january (if 0 \<le> year \<and> year \<le> 99 then 1900 + year else year)
                  + (week - 1) * 7
       \<and> (1 \<le> getDay anchor \<and> getDay anchor \<le> 4 \<longrightarrow>
            getDay s = 1 \<and> s \<le> anchor \<and> anchor - s < 7)
       \<and> (getDay anchor = 0 \<or> 5 \<le> getDay anchor \<longrightarrow>
            getDay s = 1 \<and> anchor < s \<and> s - anchor \<le> 7)
       \<and> e = s + 6)"
proof -
  let ?a = "Date_new year 0 (1 + (week - 1) * 7)"
  have r: "0 \<le> WeekDay ?a \<and> WeekDay ?a \<le> 6"
    by (rule WeekDay_range)
  have s: "start (getISOWeekDates year week) =
      (if WeekDay ?a \<le> 4 then ?a - WeekDay ?a + 1 else ?a + 8 - WeekDay ?a)"
    by (simp add: getISOWeekDates_start Let_def)
  have m: "getDay (start (getISOWeekDates year week)) = 1"
    by (simp add: s getDay_def WeekDay_monday_before WeekDay_monday_after)
  have lo: "1 \<le> WeekDay ?a \<and> WeekDay ?a \<le> 4 \<longrightarrow>
      start (getISOWeekDates year week) \<le> ?a \<and> ?a - start (getISOWeekDates year week) < 7"
    by (simp add: s)
  have hi: "WeekDay ?a = 0 \<or> 5 \<le> WeekDay ?a \<longrightarrow>
      ?a < start (getISOWeekDates year week) \<and> start (getISOWeekDates year week) - ?a \<le> 7"
    using r by (auto simp add: s)
  show ?thesis
    unfolding Let_def getISOWeekDates_end
    using m lo hi anchor_eq [of year week] by (simp add: getDay_def)
qed

theorem C1_week_start_by_anchor_weekday_witness:
  "getDay (Date_new 2024 0 (1 + (10 - 1) * 7)) = 1
   \<and> getDay (start (getISOWeekDates 2024 10)) = 1
   \<and> start (getISOWeekDates 2024 10) \<le> Date_new 2024 0 (1 + (10 - 1) * 7)
   \<and> getDay (Date_new 2023 0 (1 + (1 - 1) * 7)) = 0
   \<and> getDay (start (getISOWeekDates 2023 1)) = 1
   \<and> Date_new 2023 0 (1 + (1 - 1) * 7) < start (getISOWeekDates 2023 1)"
proof -
  have a: "getDay (Date_new 2024 0 (1 + (10 - 1) * 7)) = 1"
    by (simp add: getDay_def WeekDay_def Date_new_def MakeDay_def DayFromYear_def
        DaysBeforeMonth_def)
  have b: "getDay (Date_new 2023 0 (1 + (1 - 1) * 7)) = 0"
    by (simp add: getDay_def WeekDay_def Date_new_def MakeDay_def DayFromYear_def
        DaysBeforeMonth_def)
  show ?thesis
    using a b C1_week_start_by_anchor_weekday [of 2024 10]
      C1_week_start_by_anchor_weekday [of 2023 1]
    by (simp add: Let_def)
qed

text \<open>
  The start is not always on or before the anchor when the anchor's weekday is at most 4:
  for the label \<open>2023-W1\<close> the anchor is Sunday 2023-01-01, its weekday 0 is at most 4,
  and the returned start is the day after the anchor. Nor is the anchor always in the
  year of the label: for the label \<open>0050-W1\<close> it is not the first of January of the
  year 50.
\<close>

theorem C1_sunday_anchor_counterexample:
  "getDay (Date_new 2023 0 (1 + (1 - 1) * 7)) \<le> 4
   \<and> \<not> start (getISOWeekDates 2023 1) \<le> Date_new 2023 0 (1 + (1 - 1) * 7)
   \<and> Date_new 50 0 (1 + (1 - 1) * 7) \<noteq> first_of_january 50 + (1 - 1) * 7"
  by code_simp

text \<open>
  C3. For every year and week number, the week start and the week end that
  \<open>getISOWeekDates\<close> returns are exactly 6 days apart, and the start is a Monday
  (weekday 1).
\<close>

theorem C3_week_six_days_from_monday:
  "end_date (getISOWeekDates year week) - start (getISOWeekDates year week) = 6
   \<and> getDay (start (getISOWeekDates year week)) = 1"
proof -
  let ?s = "Date_new year 0 (1 + (week - 1) * 7)"
  have "WeekDay (?s - WeekDay ?s + 1) = 1"
    unfolding WeekDay_def by presburger
  moreover have "WeekDay (?s + 8 - WeekDay ?s) = 1"
    unfolding WeekDay_def by presburger
  ultimately have "getDay (start (getISOWeekDates year week)) = 1"
    by (simp add: getISOWeekDates_start Let_def getDay_def)
  then show ?thesis
    by (simp add: getISOWeekDates_end)
qed

section \<open>The chart's values and ticks\<close>

lemma ipow_eq: "ipow b n = b ^ nat n"
proof (induction b n rule: ipow.induct)
  case (1 b n)
  show ?case
  proof (cases "n \<le> 0")
    case True
    then show ?thesis
      by (simp add: ipow.simps [of b n])
  next
    case False
    then have n: "0 < n" by simp
    have h: "nat n = 2 * nat (n div 2) + nat (n mod 2)"
      using n by (simp add: nat_div_distrib nat_mod_distrib)
    have p: "(b * b) ^ nat (n div 2) = b ^ (2 * nat (n div 2))"
      by (simp add: power_mult power2_eq_square)
    show ?thesis
    proof (cases "n mod 2 = 0")
      case True
      with False "1.IH"(1) p h show ?thesis
        by (simp add: ipow.simps [of b n])
    next
      case m: False
      then have "n mod 2 = 1" by presburger
      with False m "1.IH"(2) p h show ?thesis
        by (simp add: ipow.simps [of b n])
    qed
  qed
qed

lemma floor_rat_divide_numeral [simp]:
  "\<lfloor>numeral a / numeral b :: rat\<rfloor> = numeral a div numeral b"
  by (metis floor_divide_of_int_eq of_int_numeral)

lemma floor_rat_divide_neg_numeral [simp]:
  "\<lfloor>- (numeral a / numeral b) :: rat\<rfloor> = - numeral a div numeral b"
  by (metis divide_minus_left floor_divide_of_int_eq of_int_neg_numeral of_int_numeral)

lemma to_double_0 [simp]: "to_double 0 = Fin 0"
  by (simp add: to_double_def)

lemma num_add_NaN_right [simp]: "num_add x NaN = NaN"
  by (cases x) simp_all

lemma convert_day_fields:
  "js_get (convert_day day) ''protein'' = JNum (floor_kcal (num_mul (macro_field day ''protein'') (Fin 4)))"
  "js_get (convert_day day) ''carbs'' = JNum (floor_kcal (num_mul (macro_field day ''carbs'') (Fin 4)))"
  "js_get (convert_day day) ''fat'' = JNum (floor_kcal (num_mul (macro_field day ''fat'') (Fin 9)))"
  "js_get (convert_day day) ''total'' =
     JNum (Math_round (calories (macro_field day ''protein'') (macro_field day ''carbs'')
       (macro_field day ''fat'')))"
  by (simp_all add: convert_day_def js_get_def Let_def)

lemma macro_field_number: "js_get day k = JNum n \<Longrightarrow> macro_field day k = n"
  by (simp add: macro_field_def)



text \<open>
  The products and sums round as doubles do. For 0.2 g of carbs and 0.3 g of fat, given
  as the doubles nearest to these decimals, the kcal values are the doubles 0.8 and
  2.6999999999999997; their sum lies midway between two doubles and rounds to 3.5, so the
  total is 4.
\<close>

lemma convert_day_rounds_as_doubles:
  "js_get (convert_day [''name'' \<mapsto> JStr ''2024-01-05'', ''protein'' \<mapsto> JNum (Fin 0),
       ''carbs'' \<mapsto> JNum (Fin (3602879701896397 / 18014398509481984)),
       ''fat'' \<mapsto> JNum (Fin (5404319552844595 / 18014398509481984))]) ''total'' = JNum (Fin 4)"
  by code_simp

text \<open>
  C5. The tick interval is 0 in the monthly view; in any other view it is 0 up to 7
  buckets, 1 up to 14, 2 up to 30, 6 up to 90 and 29 beyond; 10, 50 and 95 daily buckets
  give 1, 6 and 29.
\<close>

theorem C5_tick_interval:
  "(viewMode = ''monthly'' \<longrightarrow> xAxisInterval viewMode n = 0)
   \<and> (viewMode \<noteq> ''monthly'' \<longrightarrow>
        (n \<le> 7 \<longrightarrow> xAxisInterval viewMode n = 0)
      \<and> (7 < n \<and> n \<le> 14 \<longrightarrow> xAxisInterval viewMode n = 1)
      \<and> (14 < n \<and> n \<le> 30 \<longrightarrow> xAxisInterval viewMode n = 2)
      \<and> (30 < n \<and> n \<le> 90 \<longrightarrow> xAxisInterval viewMode n = 6)
      \<and> (90 < n \<longrightarrow> xAxisInterval viewMode n = 29))
   \<and> xAxisInterval ''daily'' 10 = 1
   \<and> xAxisInterval ''daily'' 50 = 6
   \<and> xAxisInterval ''daily'' 95 = 29"
  by (simp add: xAxisInterval_def)

theorem C5_tick_interval_witness:
  "xAxisInterval ''monthly'' 100 = 0
   \<and> xAxisInterval ''weekly'' 7 = 0
   \<and> xAxisInterval ''weekly'' 14 = 1
   \<and> xAxisInterval ''daily'' 30 = 2
   \<and> xAxisInterval ''daily'' 90 = 6
   \<and> xAxisInterval ''daily'' 91 = 29"
  using C5_tick_interval [of "''monthly''" 100] C5_tick_interval [of "''weekly''" 7]
    C5_tick_interval [of "''weekly''" 14] C5_tick_interval [of "''daily''" 30]
    C5_tick_interval [of "''daily''" 90] C5_tick_interval [of "''daily''" 91]
  by simp

lemma macro_field_update_other:
  "j \<noteq> k \<Longrightarrow> macro_field (day(k \<mapsto> v)) j = macro_field day j"
  by (simp add: macro_field_def js_get_def)

lemma non_number_field_is_zero:
  assumes "k \<in> {''protein'', ''carbs'', ''fat''}"
    and "typeof (js_get day k) \<noteq> ''number''"
  shows "js_get (convert_day day) k = JNum (Fin 0)
       \<and> convert_day day = convert_day (day(k \<mapsto> JNum (Fin 0)))"
proof -
  have z: "macro_field day k = Fin 0"
    using assms(2) by (simp add: macro_field_def)
  have z': "macro_field (day(k \<mapsto> JNum (Fin 0))) k = Fin 0"
    by (simp add: macro_field_def js_get_def)
  from assms(1) consider "k = ''protein''" | "k = ''carbs''" | "k = ''fat''"
    by auto
  then show ?thesis
  proof cases
    case 1
    have a: "js_get (convert_day day) k = JNum (Fin 0)"
      using z by (simp add: 1 convert_day_fields floor_kcal_def)
    have "macro_field (day(k \<mapsto> JNum (Fin 0))) ''carbs'' = macro_field day ''carbs''"
      "macro_field (day(k \<mapsto> JNum (Fin 0))) ''fat'' = macro_field day ''fat''"
      by (simp_all add: macro_field_update_other 1)
    then have b: "convert_day day = convert_day (day(k \<mapsto> JNum (Fin 0)))"
      using z z' by (simp add: convert_day_def Let_def 1 fun_upd_twist)
    from a b show ?thesis by simp
  next
    case 2
    have a: "js_get (convert_day day) k = JNum (Fin 0)"
      using z by (simp add: 2 convert_day_fields floor_kcal_def)
    have "macro_field (day(k \<mapsto> JNum (Fin 0))) ''protein'' = macro_field day ''protein''"
      "macro_field (day(k \<mapsto> JNum (Fin 0))) ''fat'' = macro_field day ''fat''"
      by (simp_all add: macro_field_update_other 2)
    then have b: "convert_day day = convert_day (day(k \<mapsto> JNum (Fin 0)))"
      using z z' by (simp add: convert_day_def Let_def 2 fun_upd_twist)
    from a b show ?thesis by simp
  next
    case 3
    have a: "js_get (convert_day day) k = JNum (Fin 0)"
      using z by (simp add: 3 convert_day_fields floor_kcal_def)
    have "macro_field (day(k \<mapsto> JNum (Fin 0))) ''protein'' = macro_field day ''protein''"
      "macro_field (day(k \<mapsto> JNum (Fin 0))) ''carbs'' = macro_field day ''carbs''"
      by (simp_all add: macro_field_update_other 3)
    then have b: "convert_day day = convert_day (day(k \<mapsto> JNum (Fin 0)))"
      using z z' by (simp add: convert_day_def Let_def 3 fun_upd_twist)
    from a b show ?thesis by simp
  qed
qed

lemma NaN_field_stays:
  assumes "k \<in> {''protein'', ''carbs'', ''fat''}"
    and "js_get day k = JNum NaN"
  shows "js_get (convert_day day) k = JNum NaN \<and> js_get (convert_day day) ''total'' = JNum NaN"
proof -
  have n: "macro_field day k = NaN"
    using assms(2) by (rule macro_field_number)
  have f: "floor_kcal NaN = NaN"
    by (simp add: floor_kcal_def)
  from assms(1) consider "k = ''protein''" | "k = ''carbs''" | "k = ''fat''"
    by auto
  then show ?thesis
  proof cases
    case 1
    with n show ?thesis
      by (simp add: convert_day_fields calories_def f)
  next
    case 2
    with n show ?thesis
      by (simp add: convert_day_fields calories_def f)
  next
    case 3
    with n show ?thesis
      by (simp add: convert_day_fields calories_def f)
  qed
qed

text \<open>
  C8 (as amended). A protein, carbs or fat property of a bucket that is absent or whose
  type is not number is treated as zero: its bar value is 0, and the converted bucket is
  the one that the same bucket with a 0 in that property gives. A property that is \<open>NaN\<close>,
  whose type is number, is not: its bar value and the total are \<open>NaN\<close>. The conversion
  has no failing path.
\<close>

theorem C8_only_non_number_is_zero:
  assumes "k \<in> {''protein'', ''carbs'', ''fat''}"
  shows "(typeof (js_get day k) \<noteq> ''number'' \<longrightarrow>
            js_get (convert_day day) k = JNum (Fin 0)
          \<and> convert_day day = convert_day (day(k \<mapsto> JNum (Fin 0))))
       \<and> (js_get day k = JNum NaN \<longrightarrow>
            js_get (convert_day day) k = JNum NaN
          \<and> js_get (convert_day day) ''total'' = JNum NaN)"
  using non_number_field_is_zero [OF assms] NaN_field_stays [OF assms] by blast

theorem C8_only_non_number_is_zero_witness:
  "js_get (convert_day [''name'' \<mapsto> JStr ''2024-01-05'', ''protein'' \<mapsto> JStr ''12'',
       ''fat'' \<mapsto> JNull]) ''protein'' = JNum (Fin 0)
   \<and> js_get (convert_day [''name'' \<mapsto> JStr ''2024-01-05'', ''protein'' \<mapsto> JStr ''12'',
       ''fat'' \<mapsto> JNull]) ''carbs'' = JNum (Fin 0)
   \<and> js_get (convert_day [''name'' \<mapsto> JStr ''2024-01-05'', ''protein'' \<mapsto> JStr ''12'',
       ''fat'' \<mapsto> JNull]) ''fat'' = JNum (Fin 0)
   \<and> js_get (convert_day [''name'' \<mapsto> JStr ''2024-01-05'', ''protein'' \<mapsto> JNum (Fin 1),
       ''carbs'' \<mapsto> JNum NaN, ''fat'' \<mapsto> JNum (Fin 1)]) ''carbs'' = JNum NaN"
proof -
  let ?d = "[''name'' \<mapsto> JStr ''2024-01-05'', ''protein'' \<mapsto> JStr ''12'',
       ''fat'' \<mapsto> JNull]"
  let ?n = "[''name'' \<mapsto> JStr ''2024-01-05'', ''protein'' \<mapsto> JNum (Fin 1),
       ''carbs'' \<mapsto> JNum NaN, ''fat'' \<mapsto> JNum (Fin 1)]"
  have p: "typeof (js_get ?d ''protein'') \<noteq> ''number''"
    and c: "typeof (js_get ?d ''carbs'') \<noteq> ''number''"
    and f: "typeof (js_get ?d ''fat'') \<noteq> ''number''"
    and n: "js_get ?n ''carbs'' = JNum NaN"
    by (simp_all add: js_get_def)
  have "js_get (convert_day ?d) ''protein'' = JNum (Fin 0)"
    using C8_only_non_number_is_zero [of "''protein''" ?d] p by blast
  moreover have "js_get (convert_day ?d) ''carbs'' = JNum (Fin 0)"
    using C8_only_non_number_is_zero [of "''carbs''" ?d] c by blast
  moreover have "js_get (convert_day ?d) ''fat'' = JNum (Fin 0)"
    using C8_only_non_number_is_zero [of "''fat''" ?d] f by blast
  moreover have "js_get (convert_day ?n) ''carbs'' = JNum NaN"
    using C8_only_non_number_is_zero [of "''carbs''" ?n] n by blast
  ultimately show ?thesis
    by blast
qed

text \<open>
  A property that is not a numeric value is not always treated as zero: \<open>NaN\<close> passes the
  test of its type and reaches the bar and the total.
\<close>

theorem C8_NaN_field_counterexample:
  "js_get [''name'' \<mapsto> JStr ''2024-01-05'', ''protein'' \<mapsto> JNum NaN,
       ''carbs'' \<mapsto> JNum (Fin 1), ''fat'' \<mapsto> JNum (Fin 1)] ''protein'' = JNum NaN
   \<and> js_get (convert_day [''name'' \<mapsto> JStr ''2024-01-05'', ''protein'' \<mapsto> JNum NaN,
       ''carbs'' \<mapsto> JNum (Fin 1), ''fat'' \<mapsto> JNum (Fin 1)]) ''protein'' \<noteq> JNum (Fin 0)
   \<and> js_get (convert_day [''name'' \<mapsto> JStr ''2024-01-05'', ''protein'' \<mapsto> JNum NaN,
       ''carbs'' \<mapsto> JNum (Fin 1), ''fat'' \<mapsto> JNum (Fin 1)]) ''protein'' = JNum NaN
   \<and> js_get (convert_day [''name'' \<mapsto> JStr ''2024-01-05'', ''protein'' \<mapsto> JNum NaN,
       ''carbs'' \<mapsto> JNum (Fin 1), ''fat'' \<mapsto> JNum (Fin 1)]) ''total'' = JNum NaN"
  by code_simp

text \<open>
  C9. While loading, the chart renders the loading placeholder whatever the data; when it
  is not loading and the data is absent or has no bucket, it renders the empty-state
  message; with at least one bucket it renders a bar chart.
\<close>

theorem C9_placeholders:
  "MacroChart unit viewMode data True = Placeholder ''Loading chart data...''
   \<and> (data = None \<or> data = Some [] \<longrightarrow>
        MacroChart unit viewMode data False = Placeholder ''No data available for this period.'')
   \<and> (\<forall>d. data = Some d \<and> d \<noteq> [] \<longrightarrow>
        (\<exists>c. MacroChart unit viewMode data False = BarChart c))"
  by (auto simp add: MacroChart_def)

theorem C9_placeholders_witness:
  "MacroChart ''g'' ''daily'' (Some []) False = Placeholder ''No data available for this period.''
   \<and> MacroChart ''g'' ''daily'' None False = Placeholder ''No data available for this period.''
   \<and> (\<exists>c. MacroChart ''g'' ''daily'' (Some [Map.empty]) False = BarChart c)"
  using C9_placeholders [of "''g''" "''daily''" "Some []"]
    C9_placeholders [of "''g''" "''daily''" None]
    C9_placeholders [of "''g''" "''daily''" "Some [Map.empty]"]
  by simp

lemma js_or_number: "js_or (JNum x) (JNum (Fin 0)) = JNum (or_zero x)"
  by (cases x) (auto simp add: js_or_def or_zero_def)

lemma hover_payload_converted:
  "hover_payload (convert_day day) =
     [\<lparr>entry_name = ''Protein'',
       entry_value = JNum (floor_kcal (num_mul (macro_field day ''protein'') (Fin 4)))\<rparr>,
      \<lparr>entry_name = ''Carbs'',
       entry_value = JNum (floor_kcal (num_mul (macro_field day ''carbs'') (Fin 4)))\<rparr>,
      \<lparr>entry_name = ''Fat'',
       entry_value = JNum (floor_kcal (num_mul (macro_field day ''fat'') (Fin 9)))\<rparr>]"
  by (simp add: hover_payload_def bars_def convert_day_fields)

lemma hover_payload_values:
  "map entry_value (hover_payload datum) =
     [js_get datum ''protein'', js_get datum ''carbs'', js_get datum ''fat'']"
  by (simp add: hover_payload_def bars_def)

lemma totalKcal_three_numbers:
  "totalKcal [\<lparr>entry_name = a, entry_value = JNum x\<rparr>, \<lparr>entry_name = b, entry_value = JNum y\<rparr>,
       \<lparr>entry_name = c, entry_value = JNum z\<rparr>] =
     JNum (num_add (num_add (num_add (Fin 0) (or_zero x)) (or_zero y)) (or_zero z))"
  by (simp add: totalKcal_def js_or_number)

text \<open>
  C2 (as amended). For every hovered bucket, the values that the tooltip receives are the
  bar values of the converted bucket, rounded and floored, and the grand total is their
  sum, added in this order as doubles from 0, with a \<open>NaN\<close> value counted as 0; the
  total line always ends with the unit \<open>kcal\<close>, whatever unit the chart is given.
\<close>

theorem C2_tooltip_total_of_shown_values:
  "(let P = floor_kcal (num_mul (macro_field day ''protein'') (Fin 4));
        C = floor_kcal (num_mul (macro_field day ''carbs'') (Fin 4));
        F = floor_kcal (num_mul (macro_field day ''fat'') (Fin 9));
        payload = hover_payload (convert_day day)
    in map entry_value payload =
         [js_get (convert_day day) ''protein'', js_get (convert_day day) ''carbs'',
          js_get (convert_day day) ''fat'']
       \<and> map entry_value payload = [JNum P, JNum C, JNum F]
       \<and> totalKcal payload =
           JNum (num_add (num_add (num_add (Fin 0) (or_zero P)) (or_zero C)) (or_zero F))
       \<and> CustomTooltip True (Some payload) unit =
           Some \<lparr>series_lines =
                   map (\<lambda>entry. [Expr (JStr (entry_name entry)), Text '':'', Text '' '',
                                   Expr (entry_value entry), Text '' '', Expr (JStr unit)])
                     payload,
                 total_line = [Text ''Total: '', Expr (totalKcal payload), Text '' kcal'']\<rparr>)"
proof -
  have v: "map entry_value (hover_payload (convert_day day)) =
      [js_get (convert_day day) ''protein'', js_get (convert_day day) ''carbs'',
       js_get (convert_day day) ''fat'']"
    by (rule hover_payload_values)
  have t: "totalKcal (hover_payload (convert_day day)) =
      JNum (num_add (num_add (num_add (Fin 0)
        (or_zero (floor_kcal (num_mul (macro_field day ''protein'') (Fin 4)))))
        (or_zero (floor_kcal (num_mul (macro_field day ''carbs'') (Fin 4)))))
        (or_zero (floor_kcal (num_mul (macro_field day ''fat'') (Fin 9)))))"
    unfolding hover_payload_converted by (rule totalKcal_three_numbers)
  have n: "length (hover_payload (convert_day day)) \<noteq> 0"
    by (simp add: hover_payload_def bars_def)
  have l: "CustomTooltip True (Some (hover_payload (convert_day day))) unit =
      Some \<lparr>series_lines =
              map (\<lambda>entry. [Expr (JStr (entry_name entry)), Text '':'', Text '' '',
                              Expr (entry_value entry), Text '' '', Expr (JStr unit)])
                (hover_payload (convert_day day)),
            total_line = [Text ''Total: '', Expr (totalKcal (hover_payload (convert_day day))),
              Text '' kcal'']\<rparr>"
    using n by (simp add: CustomTooltip_def)
  show ?thesis
    unfolding Let_def using v t l by (simp add: convert_day_fields)
qed

theorem C2_tooltip_total_of_shown_values_witness:
  "totalKcal (hover_payload (convert_day [''name'' \<mapsto> JStr ''2024-01-05'',
       ''protein'' \<mapsto> JNum (Fin (81 / 8)), ''carbs'' \<mapsto> JNum (Fin (81 / 4)),
       ''fat'' \<mapsto> JNum (Fin (21 / 4))])) = JNum (Fin 169)
   \<and> totalKcal (hover_payload (convert_day [''name'' \<mapsto> JStr ''2024-01-05'',
       ''protein'' \<mapsto> JNum NaN, ''carbs'' \<mapsto> JNum (Fin 1), ''fat'' \<mapsto> JNum (Fin 1)]))
     = JNum (Fin 13)"
proof -
  let ?d = "[''name'' \<mapsto> JStr ''2024-01-05'',
       ''protein'' \<mapsto> JNum (Fin (81 / 8)), ''carbs'' \<mapsto> JNum (Fin (81 / 4)),
       ''fat'' \<mapsto> JNum (Fin (21 / 4))]"
  let ?n = "[''name'' \<mapsto> JStr ''2024-01-05'',
       ''protein'' \<mapsto> JNum NaN, ''carbs'' \<mapsto> JNum (Fin 1), ''fat'' \<mapsto> JNum (Fin 1)]"
  have d: "num_add (num_add (num_add (Fin 0)
        (or_zero (floor_kcal (num_mul (macro_field ?d ''protein'') (Fin 4)))))
        (or_zero (floor_kcal (num_mul (macro_field ?d ''carbs'') (Fin 4)))))
        (or_zero (floor_kcal (num_mul (macro_field ?d ''fat'') (Fin 9)))) = Fin 169"
    by code_simp
  have n: "num_add (num_add (num_add (Fin 0)
        (or_zero (floor_kcal (num_mul (macro_field ?n ''protein'') (Fin 4)))))
        (or_zero (floor_kcal (num_mul (macro_field ?n ''carbs'') (Fin 4)))))
        (or_zero (floor_kcal (num_mul (macro_field ?n ''fat'') (Fin 9)))) = Fin 13"
    by code_simp
  from C2_tooltip_total_of_shown_values [of ?d "''g''"]
  have "totalKcal (hover_payload (convert_day ?d)) = JNum (Fin 169)"
    unfolding Let_def d by blast
  moreover from C2_tooltip_total_of_shown_values [of ?n "''g''"]
  have "totalKcal (hover_payload (convert_day ?n)) = JNum (Fin 13)"
    unfolding Let_def n by blast
  ultimately show ?thesis
    by blast
qed

text \<open>
  The total is not the sum of the values before rounding. For the bucket of 10.125 g
  protein, 20.25 g carbs and 5.25 g fat the bars show 41, 81 and 47 and the total is 169,
  while the kcal values before rounding sum to 168.75 and the grams to 35.625.
\<close>

theorem C2_raw_sum_counterexample:
  "totalKcal (hover_payload (convert_day [''name'' \<mapsto> JStr ''2024-01-05'',
       ''protein'' \<mapsto> JNum (Fin (81 / 8)), ''carbs'' \<mapsto> JNum (Fin (81 / 4)),
       ''fat'' \<mapsto> JNum (Fin (21 / 4))])) = JNum (Fin 169)
   \<and> totalKcal (hover_payload (convert_day [''name'' \<mapsto> JStr ''2024-01-05'',
       ''protein'' \<mapsto> JNum (Fin (81 / 8)), ''carbs'' \<mapsto> JNum (Fin (81 / 4)),
       ''fat'' \<mapsto> JNum (Fin (21 / 4))]))
     \<noteq> JNum (calories (Fin (81 / 8)) (Fin (81 / 4)) (Fin (21 / 4)))
   \<and> calories (Fin (81 / 8)) (Fin (81 / 4)) (Fin (21 / 4)) = Fin (675 / 4)
   \<and> num_add (num_add (Fin (81 / 8)) (Fin (81 / 4))) (Fin (21 / 4)) = Fin (285 / 8)"
  by code_simp

text \<open>The text of the total line for that bucket.\<close>

lemma tooltip_total_text:
  "map_option (\<lambda>v. line_text (total_line v)) (CustomTooltip True (Some (hover_payload (convert_day
       [''name'' \<mapsto> JStr ''2024-01-05'', ''protein'' \<mapsto> JNum (Fin (81 / 8)),
        ''carbs'' \<mapsto> JNum (Fin (81 / 4)), ''fat'' \<mapsto> JNum (Fin (21 / 4))]))) ''g'')
   = Some ''Total: 169 kcal''"
  by code_simp

section \<open>The saved plate\<close>

lemma InLeapYear_DaysInYear: "DaysInYear (YearFromTime d) = 365 + InLeapYear d"
  using DaysInYear_cases [of "YearFromTime d"] by (auto simp add: InLeapYear_def)

lemma InLeapYear_cases: "InLeapYear d = 0 \<or> InLeapYear d = 1"
  by (simp add: InLeapYear_def)

lemma DateFromTime_range: "1 \<le> DateFromTime d \<and> DateFromTime d \<le> 31"
proof -
  have n: "0 \<le> DayWithinYear d" "DayWithinYear d < 365 + InLeapYear d"
    using DayWithinYear_range [of d] by (simp_all add: InLeapYear_DaysInYear)
  from InLeapYear_cases [of d] show ?thesis
  proof
    assume l: "InLeapYear d = 0"
    show ?thesis
      using n by (simp add: DateFromTime_def MonthFromTime_def DaysBeforeMonth_def l Let_def)
  next
    assume l: "InLeapYear d = 1"
    show ?thesis
      using n by (simp add: DateFromTime_def MonthFromTime_def DaysBeforeMonth_def l Let_def)
  qed
qed

lemma dec_digits_small: "n < 10 \<Longrightarrow> dec_digits n = [digit_char (nat n)]"
  by (simp add: dec_digits.simps [of n])

lemma dec_digits_step:
  "10 \<le> n \<Longrightarrow> dec_digits n = dec_digits (n div 10) @ [digit_char (nat n mod 10)]"
  by (simp add: dec_digits.simps [of n] nat_mod_distrib)

lemma dec_digits_two:
  assumes "10 \<le> n" and "n < 100"
  shows "dec_digits n = [digit_char (nat n div 10), digit_char (nat n mod 10)]"
proof -
  have "n div 10 < 10"
    using assms by linarith
  then have "dec_digits (n div 10) = [digit_char (nat n div 10)]"
    using assms by (simp add: dec_digits_small nat_div_distrib)
  then show ?thesis
    using assms by (simp add: dec_digits_step)
qed

lemma dec_digits_four:
  assumes "1000 \<le> n" and "n < 10000"
  shows "dec_digits n =
    [digit_char (nat n div 1000), digit_char (nat n div 100 mod 10),
     digit_char (nat n div 10 mod 10), digit_char (nat n mod 10)]"
proof -
  have d: "n div 10 div 10 = n div 100" "n div 100 div 10 = n div 1000"
    by (simp_all add: zdiv_zmult2_eq [symmetric])
  have r: "10 \<le> n" "10 \<le> n div 10" "10 \<le> n div 100" "n div 1000 < 10"
    using assms by linarith+
  have a: "dec_digits n = dec_digits (n div 10) @ [digit_char (nat n mod 10)]"
    using r by (simp add: dec_digits_step)
  have b: "dec_digits (n div 10) = dec_digits (n div 100) @ [digit_char (nat n div 10 mod 10)]"
    using r dec_digits_step [of "n div 10"] by (simp add: d nat_div_distrib)
  have c: "dec_digits (n div 100) = dec_digits (n div 1000) @ [digit_char (nat n div 100 mod 10)]"
    using r dec_digits_step [of "n div 100"] by (simp add: d nat_div_distrib)
  have e: "dec_digits (n div 1000) = [digit_char (nat n div 1000)]"
    using r by (simp add: dec_digits_small nat_div_distrib)
  show ?thesis
    by (simp add: a b c e)
qed

lemma digit_char_0: "digit_char 0 = CHR ''0''"
  by code_simp

lemma Number_toString_int:
  assumes "0 \<le> n" and "n < 9007199254740992"
  shows "Number_toString (Fin (of_int n)) = dec_digits n"
proof (cases "n = 0")
  case True
  then show ?thesis
    by (simp add: dec_digits_small digit_char_0)
next
  case False
  with assms have "0 < n"
    by simp
  moreover have "(of_int n :: rat) < 9007199254740992"
    using assms(2) by (metis of_int_less_iff of_int_numeral)
  ultimately show ?thesis
    by (simp add: positive_toString_def)
qed

lemma padStart_two:
  assumes "0 \<le> n" and "n < 100"
  shows "padStart (dec_digits n) 2 (CHR ''0'') = [digit_char (nat n div 10), digit_char (nat n mod 10)]"
proof (cases "n < 10")
  case True
  then have "nat n div 10 = 0" "nat n mod 10 = nat n"
    using assms by simp_all
  with True show ?thesis
    by (simp add: padStart_def dec_digits_small digit_char_0)
next
  case False
  with assms show ?thesis
    by (simp add: padStart_def dec_digits_two)
qed

lemma getLocalDateString_shape:
  assumes "1000 \<le> getFullYear d" and "getFullYear d \<le> 9999"
  shows "getLocalDateString d =
    (let y = nat (getFullYear d); m = nat (getMonth d + 1); dd = nat (getDate d) in
     [digit_char (y div 1000), digit_char (y div 100 mod 10), digit_char (y div 10 mod 10),
      digit_char (y mod 10), CHR ''-'', digit_char (m div 10), digit_char (m mod 10), CHR ''-'',
      digit_char (dd div 10), digit_char (dd mod 10)])"
proof -
  have yr: "0 \<le> getFullYear d" "getFullYear d < 9007199254740992"
    using assms by simp_all
  have mr: "0 \<le> getMonth d + 1" "getMonth d + 1 < 100"
    using MonthFromTime_range [of d] by (simp_all add: getMonth_def)
  have dr: "0 \<le> getDate d" "getDate d < 100"
    using DateFromTime_range [of d] by (simp_all add: getDate_def)
  have y: "ToString (JNum (Fin (of_int (getFullYear d)))) = dec_digits (getFullYear d)"
    using yr by (simp only: ToString.simps Number_toString_int)
  have m: "ToString (JNum (Fin (of_int (getMonth d + 1)))) = dec_digits (getMonth d + 1)"
    using mr by (simp only: ToString.simps Number_toString_int)
  have dd: "ToString (JNum (Fin (of_int (getDate d)))) = dec_digits (getDate d)"
    using dr by (simp only: ToString.simps Number_toString_int)
  have y4: "dec_digits (getFullYear d) =
      [digit_char (nat (getFullYear d) div 1000), digit_char (nat (getFullYear d) div 100 mod 10),
       digit_char (nat (getFullYear d) div 10 mod 10), digit_char (nat (getFullYear d) mod 10)]"
    using assms by (intro dec_digits_four) simp_all
  have m2: "padStart (dec_digits (getMonth d + 1)) 2 (CHR ''0'') =
      [digit_char (nat (getMonth d + 1) div 10), digit_char (nat (getMonth d + 1) mod 10)]"
    using mr by (intro padStart_two)
  have d2: "padStart (dec_digits (getDate d)) 2 (CHR ''0'') =
      [digit_char (nat (getDate d) div 10), digit_char (nat (getDate d) mod 10)]"
    using dr by (intro padStart_two)
  show ?thesis
    unfolding getLocalDateString_def y m dd y4 m2 d2 Let_def by simp
qed

lemma plate_item_of_fields:
  "food_id (plate_item_of item) = js_or (js_get item ''id'') (js_get item ''_id'')"
  "quantity (plate_item_of item) = js_or (js_get item ''quantity'') (JNum (Fin 1))"
  "(custom_macros (plate_item_of item) \<noteq> None) =
     startsWith (ToString (js_or (js_get item ''id'') (js_get item ''_id''))) ''custom-''"
  by (simp_all add: plate_item_of_def Let_def)

text \<open>
  C6. The request that the save sends carries the selected date as
  \<open>getLocalDateString\<close> renders it, which for a year of four digits is the ten
  characters \<open>YYYY-MM-DD\<close> of the local year, month and day; it carries one item for
  each tracked item, in order, with \<open>food_id\<close> (the item's \<open>id\<close>, or its \<open>_id\<close>) and
  \<open>quantity\<close>, and with \<open>custom_macros\<close> exactly when the food identifier, as a string,
  starts with \<open>custom-\<close>. An item with id \<open>custom-123\<close> has \<open>custom_macros\<close>, one with
  id \<open>45\<close> has not.
\<close>

theorem C6_plate_payload:
  "body_date (body (plate_request st)) = getLocalDateString (date st)
   \<and> (1000 \<le> getFullYear (date st) \<and> getFullYear (date st) \<le> 9999 \<longrightarrow>
        body_date (body (plate_request st)) =
          (let y = nat (getFullYear (date st)); m = nat (getMonth (date st) + 1);
               dd = nat (getDate (date st)) in
           [digit_char (y div 1000), digit_char (y div 100 mod 10), digit_char (y div 10 mod 10),
            digit_char (y mod 10), CHR ''-'', digit_char (m div 10), digit_char (m mod 10),
            CHR ''-'', digit_char (dd div 10), digit_char (dd mod 10)]))
   \<and> length (body_items (body (plate_request st))) = length (trackedItems st)
   \<and> (\<forall>i < length (trackedItems st).
        food_id (body_items (body (plate_request st)) ! i) =
          js_or (js_get (trackedItems st ! i) ''id'') (js_get (trackedItems st ! i) ''_id'')
      \<and> quantity (body_items (body (plate_request st)) ! i) =
          js_or (js_get (trackedItems st ! i) ''quantity'') (JNum (Fin 1))
      \<and> (custom_macros (body_items (body (plate_request st)) ! i) \<noteq> None) =
          startsWith (ToString (food_id (body_items (body (plate_request st)) ! i))) ''custom-'')"
proof -
  have d: "body_date (body (plate_request st)) = getLocalDateString (date st)"
    by (simp add: plate_request_def)
  have l: "length (body_items (body (plate_request st))) = length (trackedItems st)"
    by (simp add: plate_request_def)
  have i: "body_items (body (plate_request st)) ! i = plate_item_of (trackedItems st ! i)"
    if "i < length (trackedItems st)" for i
    using that by (simp add: plate_request_def)
  have f: "food_id (body_items (body (plate_request st)) ! i) =
          js_or (js_get (trackedItems st ! i) ''id'') (js_get (trackedItems st ! i) ''_id'')
      \<and> quantity (body_items (body (plate_request st)) ! i) =
          js_or (js_get (trackedItems st ! i) ''quantity'') (JNum (Fin 1))
      \<and> (custom_macros (body_items (body (plate_request st)) ! i) \<noteq> None) =
          startsWith (ToString (food_id (body_items (body (plate_request st)) ! i))) ''custom-''"
    if "i < length (trackedItems st)" for i
    unfolding i [OF that] plate_item_of_fields by simp
  have s: "1000 \<le> getFullYear (date st) \<and> getFullYear (date st) \<le> 9999 \<longrightarrow>
        body_date (body (plate_request st)) =
          (let y = nat (getFullYear (date st)); m = nat (getMonth (date st) + 1);
               dd = nat (getDate (date st)) in
           [digit_char (y div 1000), digit_char (y div 100 mod 10), digit_char (y div 10 mod 10),
            digit_char (y mod 10), CHR ''-'', digit_char (m div 10), digit_char (m mod 10),
            CHR ''-'', digit_char (dd div 10), digit_char (dd mod 10)])"
    unfolding d using getLocalDateString_shape [of "date st"] by blast
  from d s l f show ?thesis
    by blast
qed

theorem C6_plate_payload_witness:
  "body_date (body (plate_request
       \<lparr>trackedItems = [[''id'' \<mapsto> JStr ''custom-123'', ''quantity'' \<mapsto> JNum (Fin 2),
           ''name'' \<mapsto> JStr ''Shake'', ''calories'' \<mapsto> JNum (Fin 100)],
          [''id'' \<mapsto> JStr ''45'', ''quantity'' \<mapsto> JNum (Fin 1)]],
        date = 19791, nutritionHistoryVersion = 0, console_error = []\<rparr>)) = ''2024-03-09''
   \<and> custom_macros (body_items (body (plate_request
       \<lparr>trackedItems = [[''id'' \<mapsto> JStr ''custom-123'', ''quantity'' \<mapsto> JNum (Fin 2),
           ''name'' \<mapsto> JStr ''Shake'', ''calories'' \<mapsto> JNum (Fin 100)],
          [''id'' \<mapsto> JStr ''45'', ''quantity'' \<mapsto> JNum (Fin 1)]],
        date = 19791, nutritionHistoryVersion = 0, console_error = []\<rparr>)) ! 0) \<noteq> None
   \<and> custom_macros (body_items (body (plate_request
       \<lparr>trackedItems = [[''id'' \<mapsto> JStr ''custom-123'', ''quantity'' \<mapsto> JNum (Fin 2),
           ''name'' \<mapsto> JStr ''Shake'', ''calories'' \<mapsto> JNum (Fin 100)],
          [''id'' \<mapsto> JStr ''45'', ''quantity'' \<mapsto> JNum (Fin 1)]],
        date = 19791, nutritionHistoryVersion = 0, console_error = []\<rparr>)) ! 1) = None"
proof -
  let ?st = "\<lparr>trackedItems = [[''id'' \<mapsto> JStr ''custom-123'', ''quantity'' \<mapsto> JNum (Fin 2),
           ''name'' \<mapsto> JStr ''Shake'', ''calories'' \<mapsto> JNum (Fin 100)],
          [''id'' \<mapsto> JStr ''45'', ''quantity'' \<mapsto> JNum (Fin 1)]],
        date = 19791, nutritionHistoryVersion = 0, console_error = []\<rparr>"
  have y: "getFullYear 19791 = 2024" and m: "getMonth 19791 = 2" and dd: "getDate 19791 = 9"
    by code_simp+
  have dc: "[digit_char 2, digit_char 0, digit_char 2, digit_char 4, CHR ''-'', digit_char 0,
      digit_char 3, CHR ''-'', digit_char 0, digit_char 9] = ''2024-03-09''"
    by code_simp
  have c0: "startsWith (ToString (js_or (js_get (trackedItems ?st ! 0) ''id'')
      (js_get (trackedItems ?st ! 0) ''_id''))) ''custom-''"
    by (simp add: js_get_def js_or_def startsWith_def)
  have c1: "\<not> startsWith (ToString (js_or (js_get (trackedItems ?st ! 1) ''id'')
      (js_get (trackedItems ?st ! 1) ''_id''))) ''custom-''"
    by (simp add: js_get_def js_or_def startsWith_def)
  have yr: "1000 \<le> getFullYear (date ?st) \<and> getFullYear (date ?st) \<le> 9999"
    by (simp add: y)
  with C6_plate_payload [of ?st]
  have "body_date (body (plate_request ?st)) =
      (let y = nat (getFullYear (date ?st)); m = nat (getMonth (date ?st) + 1);
           dd = nat (getDate (date ?st)) in
       [digit_char (y div 1000), digit_char (y div 100 mod 10), digit_char (y div 10 mod 10),
        digit_char (y mod 10), CHR ''-'', digit_char (m div 10), digit_char (m mod 10),
        CHR ''-'', digit_char (dd div 10), digit_char (dd mod 10)])"
    by blast
  also have "\<dots> = ''2024-03-09''"
    using dc by (simp add: y m dd Let_def)
  finally have a: "body_date (body (plate_request ?st)) = ''2024-03-09''" .
  let ?sent = "body_items (body (plate_request ?st))"
  have n0: "0 < length (trackedItems ?st)" and n1: "1 < length (trackedItems ?st)"
    by simp_all
  from C6_plate_payload [of ?st] n0
  have f0: "food_id (?sent ! 0) =
      js_or (js_get (trackedItems ?st ! 0) ''id'') (js_get (trackedItems ?st ! 0) ''_id'')"
    and m0: "(custom_macros (?sent ! 0) \<noteq> None) =
      startsWith (ToString (food_id (?sent ! 0))) ''custom-''"
    by blast+
  from C6_plate_payload [of ?st] n1
  have f1: "food_id (?sent ! 1) =
      js_or (js_get (trackedItems ?st ! 1) ''id'') (js_get (trackedItems ?st ! 1) ''_id'')"
    and m1: "(custom_macros (?sent ! 1) \<noteq> None) =
      startsWith (ToString (food_id (?sent ! 1))) ''custom-''"
    by blast+
  have b: "custom_macros (?sent ! 0) \<noteq> None"
    unfolding m0 f0 by (rule c0)
  have c: "custom_macros (?sent ! 1) = None"
    using c1 m1 unfolding f1 by blast
  from a b c show ?thesis
    by blast
qed

text \<open>
  The outcomes of a save: with an OK response the version grows by one; with another
  response the failure is logged; when \<open>fetch\<close> rejects, the save raises and changes
  nothing. The tracked items are the same afterwards in every case.
\<close>

lemma handleSavePlate_outcomes:
  "(fetch (plate_request st) = Resolves True \<longrightarrow>
      handleSavePlate fetch st =
        (st\<lparr>nutritionHistoryVersion := nutritionHistoryVersion st + 1\<rparr>, Returns))
   \<and> (fetch (plate_request st) = Resolves False \<longrightarrow>
      handleSavePlate fetch st =
        (st\<lparr>console_error := console_error st @ [''Failed to save plate'']\<rparr>, Returns))
   \<and> (fetch (plate_request st) = Rejects \<longrightarrow> handleSavePlate fetch st = (st, Throws))
   \<and> nutritionHistoryVersion st \<le> nutritionHistoryVersion (fst (handleSavePlate fetch st))
   \<and> trackedItems (fst (handleSavePlate fetch st)) = trackedItems st"
  by (simp add: handleSavePlate_def split: fetch_result.split)

text \<open>
  C7. A rejected request is a failed save that is not logged: for a save with one tracked
  item whose \<open>fetch\<close> rejects, the version and the tracked items are unchanged, but no
  line is written with \<open>console.error\<close>, as the branch for a response that is not OK
  writes, and the save ends by raising the rejection.
\<close>

theorem C7_rejected_fetch_not_logged:
  "handleSavePlate (\<lambda>r. Rejects)
       \<lparr>trackedItems = [[''id'' \<mapsto> JStr ''45'']], date = 19791, nutritionHistoryVersion = 3,
        console_error = []\<rparr>
     = (\<lparr>trackedItems = [[''id'' \<mapsto> JStr ''45'']], date = 19791, nutritionHistoryVersion = 3,
         console_error = []\<rparr>, Throws)
   \<and> handleSavePlate (\<lambda>r. Resolves False)
       \<lparr>trackedItems = [[''id'' \<mapsto> JStr ''45'']], date = 19791, nutritionHistoryVersion = 3,
        console_error = []\<rparr>
     = (\<lparr>trackedItems = [[''id'' \<mapsto> JStr ''45'']], date = 19791, nutritionHistoryVersion = 3,
         console_error = [''Failed to save plate'']\<rparr>, Returns)"
  by (simp add: handleSavePlate_def)

text \<open>
  C10. For every tracked item whose \<open>quantity\<close> is absent, 0 or otherwise falsy, the
  quantity in the request is 1; the number 0 is never sent as a quantity.
\<close>

theorem C10_quantity_defaults_to_one:
  "\<forall>i < length (trackedItems st).
     ((trackedItems st ! i) ''quantity'' = None
        \<or> js_get (trackedItems st ! i) ''quantity'' = JNum (Fin 0)
        \<or> \<not> truthy (js_get (trackedItems st ! i) ''quantity'') \<longrightarrow>
      quantity (body_items (body (plate_request st)) ! i) = JNum (Fin 1))
     \<and> quantity (body_items (body (plate_request st)) ! i) \<noteq> JNum (Fin 0)"
proof (intro allI impI)
  fix i
  assume i: "i < length (trackedItems st)"
  let ?q = "js_get (trackedItems st ! i) ''quantity''"
  have s: "quantity (body_items (body (plate_request st)) ! i) = js_or ?q (JNum (Fin 1))"
    using i by (simp add: plate_request_def plate_item_of_fields)
  have a: "(trackedItems st ! i) ''quantity'' = None \<Longrightarrow> \<not> truthy ?q"
    by (simp add: js_get_def)
  have b: "?q = JNum (Fin 0) \<Longrightarrow> \<not> truthy ?q"
    by simp
  have c: "\<not> truthy ?q \<Longrightarrow> js_or ?q (JNum (Fin 1)) = JNum (Fin 1)"
    by (simp add: js_or_def)
  have d: "js_or ?q (JNum (Fin 1)) \<noteq> JNum (Fin 0)"
    by (auto simp add: js_or_def)
  from a b c d show "((trackedItems st ! i) ''quantity'' = None
        \<or> ?q = JNum (Fin 0) \<or> \<not> truthy ?q \<longrightarrow>
      quantity (body_items (body (plate_request st)) ! i) = JNum (Fin 1))
     \<and> quantity (body_items (body (plate_request st)) ! i) \<noteq> JNum (Fin 0)"
    unfolding s by blast
qed

theorem C10_quantity_defaults_to_one_witness:
  "quantity (body_items (body (plate_request
       \<lparr>trackedItems = [[''id'' \<mapsto> JStr ''45''],
          [''id'' \<mapsto> JStr ''46'', ''quantity'' \<mapsto> JNum (Fin 0)],
          [''id'' \<mapsto> JStr ''47'', ''quantity'' \<mapsto> JStr []],
          [''id'' \<mapsto> JStr ''48'', ''quantity'' \<mapsto> JNum (Fin 3)]],
        date = 19791, nutritionHistoryVersion = 0, console_error = []\<rparr>)) ! 0) = JNum (Fin 1)
   \<and> quantity (body_items (body (plate_request
       \<lparr>trackedItems = [[''id'' \<mapsto> JStr ''45''],
          [''id'' \<mapsto> JStr ''46'', ''quantity'' \<mapsto> JNum (Fin 0)],
          [''id'' \<mapsto> JStr ''47'', ''quantity'' \<mapsto> JStr []],
          [''id'' \<mapsto> JStr ''48'', ''quantity'' \<mapsto> JNum (Fin 3)]],
        date = 19791, nutritionHistoryVersion = 0, console_error = []\<rparr>)) ! 1) = JNum (Fin 1)
   \<and> quantity (body_items (body (plate_request
       \<lparr>trackedItems = [[''id'' \<mapsto> JStr ''45''],
          [''id'' \<mapsto> JStr ''46'', ''quantity'' \<mapsto> JNum (Fin 0)],
          [''id'' \<mapsto> JStr ''47'', ''quantity'' \<mapsto> JStr []],
          [''id'' \<mapsto> JStr ''48'', ''quantity'' \<mapsto> JNum (Fin 3)]],
        date = 19791, nutritionHistoryVersion = 0, console_error = []\<rparr>)) ! 2) = JNum (Fin 1)
   \<and> quantity (body_items (body (plate_request
       \<lparr>trackedItems = [[''id'' \<mapsto> JStr ''45''],
          [''id'' \<mapsto> JStr ''46'', ''quantity'' \<mapsto> JNum (Fin 0)],
          [''id'' \<mapsto> JStr ''47'', ''quantity'' \<mapsto> JStr []],
          [''id'' \<mapsto> JStr ''48'', ''quantity'' \<mapsto> JNum (Fin 3)]],
        date = 19791, nutritionHistoryVersion = 0, console_error = []\<rparr>)) ! 3) \<noteq> JNum (Fin 0)"
proof -
  let ?st = "\<lparr>trackedItems = [[''id'' \<mapsto> JStr ''45''],
          [''id'' \<mapsto> JStr ''46'', ''quantity'' \<mapsto> JNum (Fin 0)],
          [''id'' \<mapsto> JStr ''47'', ''quantity'' \<mapsto> JStr []],
          [''id'' \<mapsto> JStr ''48'', ''quantity'' \<mapsto> JNum (Fin 3)]],
        date = 19791, nutritionHistoryVersion = 0, console_error = []\<rparr>"
  let ?sent = "body_items (body (plate_request ?st))"
  have n: "0 < length (trackedItems ?st)" "1 < length (trackedItems ?st)"
    "2 < length (trackedItems ?st)" "3 < length (trackedItems ?st)"
    by simp_all
  have h0: "(trackedItems ?st ! 0) ''quantity'' = None"
    by simp
  have h1: "js_get (trackedItems ?st ! 1) ''quantity'' = JNum (Fin 0)"
    by (simp add: js_get_def)
  have h2: "\<not> truthy (js_get (trackedItems ?st ! 2) ''quantity'')"
    by (simp add: js_get_def)
  from C10_quantity_defaults_to_one [of ?st] n(1) h0
  have q0: "quantity (?sent ! 0) = JNum (Fin 1)"
    by blast
  from C10_quantity_defaults_to_one [of ?st] n(2) h1
  have q1: "quantity (?sent ! 1) = JNum (Fin 1)"
    by blast
  from C10_quantity_defaults_to_one [of ?st] n(3) h2
  have q2: "quantity (?sent ! 2) = JNum (Fin 1)"
    by blast
  from C10_quantity_defaults_to_one [of ?st] n(4)
  have q3: "quantity (?sent ! 3) \<noteq> JNum (Fin 0)"
    by blast
  from q0 q1 q2 q3 show ?thesis
    by blast
qed

end
